theory Spec2Isabelle
  imports Complex_Main
begin

section \<open>Exceptions\<close>

text \<open>
  The Python exceptions that the modelled functions can raise. A function that can raise
  returns \<open>error + 'a\<close>, with \<open>Inl\<close> for the exception.
\<close>

datatype error =
    ValueError
  | IndexError
  | KeyError
  | AttributeError
  | AssertionError
  | TypeError
  | UnboundLocalError
  | CalledProcessError

section \<open>video.py: frame_dump\<close>

text \<open>
  The command line that \<open>frame_dump\<close> builds, kept structured: the seek times are the
  numbers that the source formats into the string with \<open>%r\<close>. Times are real numbers.
\<close>

datatype syscall =
    Ffmpeg_best real string real string
      \<comment> \<open>ffmpeg -y -ss coarse -i filename -ss fine -vframes 1 output_filename\<close>
  | Ffmpeg_accurate string real string
      \<comment> \<open>ffmpeg -y -i filename -ss frametime -vframes 1 output_filename\<close>
  | Ffmpeg_fast real string string
      \<comment> \<open>ffmpeg -y -ss frametime -i filename -vframes 1 output_filename\<close>

text \<open>
  Lines 109 to 122 of video.py, the \<open>if/elif\<close> chain on \<open>meth\<close>. With an unknown
  \<open>meth\<close> no branch is taken and the variable \<open>syscall\<close> stays unbound: \<open>None\<close>.
  \<open>np.max([0, frametime - subseek_cushion])\<close> is the larger of the two numbers.
\<close>

definition frame_dump_syscall ::
  "string \<Rightarrow> real \<Rightarrow> string \<Rightarrow> string \<Rightarrow> real \<Rightarrow> error + syscall option" where
  "frame_dump_syscall filename frametime output_filename meth subseek_cushion =
     (if meth = ''mplayer'' then Inl ValueError
      else if meth = ''ffmpeg best'' then
        (let coarse = max 0 (frametime - subseek_cushion);
             fine = frametime - coarse
         in Inr (Some (Ffmpeg_best coarse filename fine output_filename)))
      else if meth = ''ffmpeg accurate'' then
        Inr (Some (Ffmpeg_accurate filename frametime output_filename))
      else if meth = ''ffmpeg fast'' then
        Inr (Some (Ffmpeg_fast frametime filename output_filename))
      else Inr None)"

datatype frame_dump_output = Print_syscall syscall | Print_syscall_result string

text \<open>
  The whole of \<open>frame_dump\<close>. \<open>check_output\<close> stands for
  \<open>subprocess.check_output\<close>: the text that the command writes, or \<open>None\<close> when
  the command fails (CalledProcessError). The result is what was printed, in order, and the
  command that was run, if any.
\<close>

definition frame_dump ::
  "(syscall \<Rightarrow> string option) \<Rightarrow> string \<Rightarrow> real \<Rightarrow> string \<Rightarrow> string \<Rightarrow> real \<Rightarrow>
     bool \<Rightarrow> bool \<Rightarrow> bool \<Rightarrow> error + (frame_dump_output list \<times> syscall option)" where
  "frame_dump check_output filename frametime output_filename meth subseek_cushion
       verbose dry_run very_verbose =
     (case frame_dump_syscall filename frametime output_filename meth subseek_cushion of
        Inl e \<Rightarrow> Inl e
      | Inr None \<Rightarrow> (if verbose \<or> \<not> dry_run then Inl UnboundLocalError else Inr ([], None))
      | Inr (Some sc) \<Rightarrow>
          (let out1 = (if verbose then [Print_syscall sc] else [])
           in if dry_run then Inr (out1, None)
              else (case check_output sc of
                      None \<Rightarrow> Inl CalledProcessError
                    | Some res \<Rightarrow>
                        Inr (out1 @ (if very_verbose then [Print_syscall_result res] else []),
                             Some sc))))"

section \<open>behavior.py: masking a series of times\<close>

text \<open>
  A pandas Series of floating-point times is a list of pairs of an index label and a value;
  the value \<open>None\<close> is NaN. Times are real numbers.
\<close>

type_synonym 'l series = "('l \<times> real option) list"

text \<open>
  \<open>ser[ser < buffer] = np.nan\<close>: a comparison with NaN is false, so a NaN entry is not
  selected, and stays NaN.
\<close>

definition mask_below :: "real \<Rightarrow> 'l series \<Rightarrow> 'l series" where
  "mask_below lo ser =
     map (\<lambda>(l, v). (l, case v of None \<Rightarrow> None | Some x \<Rightarrow> if x < lo then None else Some x)) ser"

definition mask_above :: "real \<Rightarrow> 'l series \<Rightarrow> 'l series" where
  "mask_above hi ser =
     map (\<lambda>(l, v). (l, case v of None \<Rightarrow> None | Some x \<Rightarrow> if x > hi then None else Some x)) ser"

text \<open>
  \<open>mask_by_buffer_from_end\<close> changes the series in place; the model returns the series
  after the two assignments.
\<close>

definition mask_by_buffer_from_end :: "'l series \<Rightarrow> real \<Rightarrow> real \<Rightarrow> 'l series" where
  "mask_by_buffer_from_end ser end_time buffer =
     mask_above (end_time - buffer) (mask_below buffer ser)"

section \<open>numpy polynomials\<close>

text \<open>
  A polynomial is the list of its coefficients, highest degree first, as numpy has it.
  \<open>np.polyval(p, x)\<close> at a number is Horner's rule: \<open>y = 0\<close>, then
  \<open>y = y * x + pv\<close> for each coefficient \<open>pv\<close> of \<open>p\<close>.
\<close>

definition polyval :: "real list \<Rightarrow> real \<Rightarrow> real" where
  "polyval p x = foldl (\<lambda>y pv. y * x + pv) 0 p"

text \<open>
  \<open>np.polyval\<close> on an array entry that may be NaN: arithmetic with NaN gives NaN; with
  no coefficient at all the loop does not run and the result is the initial zero.
\<close>

definition polyval_nan :: "real list \<Rightarrow> real option \<Rightarrow> real option" where
  "polyval_nan p v = (if p = [] then Some 0 else map_option (polyval p) v)"

text \<open>\<open>np.poly1d(c)\<close> trims the leading zeros; the zero polynomial is \<open>[0]\<close>.\<close>

definition poly1d :: "real list \<Rightarrow> real list" where
  "poly1d c = (case dropWhile (\<lambda>a. a = 0) c of [] \<Rightarrow> [0] | d # ds \<Rightarrow> d # ds)"

text \<open>\<open>np.polyadd\<close> pads the shorter list with zeros in front, then adds.\<close>

definition polyadd :: "real list \<Rightarrow> real list \<Rightarrow> real list" where
  "polyadd a1 a2 =
     map2 (+) (replicate (length a2 - length a1) 0 @ a1)
              (replicate (length a1 - length a2) 0 @ a2)"

text \<open>\<open>np.convolve\<close>: the coefficients of the product.\<close>

fun convolve :: "real list \<Rightarrow> real list \<Rightarrow> real list" where
  "convolve [] b = []"
| "convolve (a # as) b =
     polyadd (map ((*) a) b @ replicate (length as) 0) (convolve as b)"

text \<open>
  The operators of the class \<open>poly1d\<close>: \<open>y * x\<close> on two polynomials is
  \<open>poly1d(polymul(y.coeffs, x.coeffs))\<close>, where \<open>polymul\<close> convolves the two as
  \<open>poly1d\<close>; \<open>y + pv\<close> with a number \<open>pv\<close> is
  \<open>poly1d(polyadd(y.coeffs, poly1d(pv).coeffs))\<close>.
\<close>

definition poly1d_times :: "real list \<Rightarrow> real list \<Rightarrow> real list" where
  "poly1d_times y x = poly1d (convolve (poly1d y) (poly1d x))"

definition poly1d_plus :: "real list \<Rightarrow> real \<Rightarrow> real list" where
  "poly1d_plus y pv = poly1d (polyadd y (poly1d [pv]))"

text \<open>
  \<open>np.polyval(p, x)\<close> where \<open>x\<close> is a \<open>poly1d\<close>: the same loop, on polynomials.
  It starts from the number 0, and the number 0 times \<open>x\<close> is
  \<open>poly1d(0 * x.coeffs)\<close>.
\<close>

fun polyval_poly1d :: "real list \<Rightarrow> real list \<Rightarrow> real list" where
  "polyval_poly1d [] x = [0]"
| "polyval_poly1d (pv # ps) x =
     foldl (\<lambda>y pv'. poly1d_plus (poly1d_times y x) pv')
       (poly1d_plus (poly1d (map ((*) 0) x)) pv) ps"

section \<open>behavior.py: choosing the times to check\<close>

text \<open>\<open>Series.dropna()\<close>: the entries that are not NaN, with their labels.\<close>

definition dropna :: "('l \<times> 'a option) list \<Rightarrow> ('l \<times> 'a) list" where
  "dropna ser = List.map_filter (\<lambda>(l, v). map_option (Pair l) v) ser"

text \<open>The first entry that holds the largest value.\<close>

fun first_max :: "('l \<times> 'a::linorder) list \<Rightarrow> ('l \<times> 'a) option" where
  "first_max [] = None"
| "first_max ((l, x) # xs) =
     (case first_max xs of
        None \<Rightarrow> Some (l, x)
      | Some (l', x') \<Rightarrow> if x < x' then Some (l', x') else Some (l, x))"

text \<open>
  \<open>Series.argmax()\<close>, which is \<open>Series.idxmax()\<close> in the pandas that this code
  is written for (it looks the result up by label on the next line): the label of the first
  largest entry, NaN entries skipped. On an empty series numpy raises ValueError (argmax of an
  empty sequence); when every entry is NaN the result is NaN, here \<open>None\<close>.
\<close>

definition idxmax :: "('l \<times> 'a::linorder option) list \<Rightarrow> error + 'l option" where
  "idxmax ser = (if ser = [] then Inl ValueError
                 else Inr (map_option fst (first_max (dropna ser))))"

text \<open>
  \<open>subser.diff().shift(-1)\<close> on a series without NaN: each entry becomes the next value
  minus its own, the last one NaN.
\<close>

fun diff_shift :: "('l \<times> real) list \<Rightarrow> 'l series" where
  "diff_shift [] = []"
| "diff_shift [(l, x)] = [(l, None)]"
| "diff_shift ((l, x) # (l', x') # r) = (l, Some (x' - x)) # diff_shift ((l', x') # r)"

text \<open>\<open>Series.shift(-1)\<close>: each entry becomes the next entry, the last one NaN.\<close>

fun shift_back :: "'l series \<Rightarrow> 'l series" where
  "shift_back [] = []"
| "shift_back [(l, v)] = [(l, None)]"
| "shift_back ((l, v) # (l', v') # r) = (l, v') # shift_back ((l', v') # r)"

text \<open>
  \<open>index_of_biggest_diffs_across_arr\<close>. The index of the series is the increasing list
  of the row numbers that are left after \<open>dropna\<close>, so the label slice
  \<open>ser.ix[cuts[ncut]:cuts[ncut+1]]\<close>, which includes both ends, is the slice of positions
  from that of the first cut to that of the second. \<open>ser.index[0]\<close> and
  \<open>ser.index[-1]\<close> raise IndexError on an empty series. The division of
  \<open>len(ser) * ncut / ncuts_total\<close> is Python 2 integer division.
\<close>

definition cut_positions :: "nat \<Rightarrow> int \<Rightarrow> nat list" where
  "cut_positions n ncuts_total =
     map (\<lambda>ncut. n * ncut div nat ncuts_total) [0..<nat ncuts_total] @ [n - 1]"

fun biggest_diffs_loop :: "(nat \<times> real) list \<Rightarrow> nat list \<Rightarrow> error + nat option list" where
  "biggest_diffs_loop ser (p # p' # ps) =
     (case idxmax (diff_shift (take (p' + 1 - p) (drop p ser))) of
        Inl e \<Rightarrow> Inl e
      | Inr r \<Rightarrow> (case biggest_diffs_loop ser (p' # ps) of
                    Inl e \<Rightarrow> Inl e
                  | Inr res \<Rightarrow> Inr (r # res)))"
| "biggest_diffs_loop ser ps = Inr []"

definition index_of_biggest_diffs_across_arr :: "nat series \<Rightarrow> int \<Rightarrow> error + nat option list" where
  "index_of_biggest_diffs_across_arr ser ncuts_total =
     (let ser' = dropna ser
      in if ser' = [] then Inl IndexError
         else biggest_diffs_loop ser' (cut_positions (length ser') ncuts_total))"

text \<open>
  \<open>times.ix[test_idxs]\<close> with a list of labels: the values at these labels, in order. A
  label that is NaN (here \<open>None\<close>) is not in the index and gives a NaN entry.
\<close>

definition ix_labels :: "nat series \<Rightarrow> nat option list \<Rightarrow> real option list" where
  "ix_labels ser idxs =
     map (\<lambda>i. case i of None \<Rightarrow> None
              | Some l \<Rightarrow> (case map_of ser l of None \<Rightarrow> None | Some v \<Rightarrow> v)) idxs"

definition generate_test_times_for_user ::
  "nat series \<Rightarrow> real \<Rightarrow> real list \<Rightarrow> int \<Rightarrow> real \<Rightarrow> error + (real option list \<times> real option list)" where
  "generate_test_times_for_user times0 max_time initial_guess N buffer =
     (let new_values = map (\<lambda>(l, v). (l, polyval_nan initial_guess v)) times0;
          times1 = mask_by_buffer_from_end new_values max_time buffer
      in case index_of_biggest_diffs_across_arr times1 N of
           Inl e \<Rightarrow> Inl e
         | Inr test_idxs \<Rightarrow>
             Inr (ix_labels times1 test_idxs, ix_labels (shift_back times1) test_idxs))"

section \<open>behavior.py: generate_mplayer_guesses_and_sync\<close>

text \<open>
  The columns of the row \<open>metadata\<close> that the function reads: \<open>filename\<close>,
  \<open>filename_video\<close>, and \<open>guess_vvsb_start\<close> and \<open>duration_video\<close> after their
  division by one second.
\<close>

record metadata =
  md_filename :: string
  md_filename_video :: string
  md_guess_vvsb_start :: real
  md_duration_video :: real

text \<open>What the function prints, a line or a value at a time.\<close>

datatype printed =
    Mplayer_command int string real "real option"
      \<comment> \<open>mplayer -ss pre_test_time filename_video # guess test_time, next test_next_time\<close>
  | Warning_len int nat
      \<comment> \<open>warning: len(user_results) should be N not len(user_results)\<close>
  | Print_name string
  | Print_combined_fit "real list"
  | Print_resids "real list"

text \<open>Python's \<open>int(x)\<close> on a float rounds towards zero.\<close>

definition py_int :: "real \<Rightarrow> int" where
  "py_int x = (if 0 \<le> x then \<lfloor>x\<rfloor> else \<lceil>x\<rceil>)"

text \<open>\<open>os.path.split(path)[-1]\<close>: what follows the last slash.\<close>

definition path_tail :: "string \<Rightarrow> string" where
  "path_tail path = rev (takeWhile (\<lambda>c. c \<noteq> CHR ''/'') (rev path))"

text \<open>
  The loop that prints the mplayer commands. \<open>int(test_time)\<close> raises ValueError on NaN.
\<close>

fun print_mplayer_commands ::
  "int \<Rightarrow> string \<Rightarrow> (real option \<times> real option) list \<Rightarrow> error + printed list" where
  "print_mplayer_commands pre_time fv [] = Inr []"
| "print_mplayer_commands pre_time fv ((None, nxt) # rest) = Inl ValueError"
| "print_mplayer_commands pre_time fv ((Some test_time, nxt) # rest) =
     (case print_mplayer_commands pre_time fv rest of
        Inl e \<Rightarrow> Inl e
      | Inr out \<Rightarrow> Inr (Mplayer_command (py_int test_time - pre_time) fv test_time nxt # out))"

text \<open>
  \<open>generate_mplayer_guesses_and_sync\<close>. Two things come from outside the repository
  and are parameters: \<open>retract_times\<close>, the servo retraction times that ArduFSM reads
  from a behavior file (the rows are numbered from 0; \<open>time_retract_vbase\<close> is the
  column of these times minus \<open>guess_vvsb_start\<close>), and \<open>polyfit\<close>, numpy's
  \<open>polyfit(x, y, deg=1)\<close>, which returns the coefficients of the fit or raises. The
  function returns nothing; the result is what it prints, in order. The column
  \<open>time_retract_vbase2\<close> that the source also computes is never read.
\<close>

definition time_retract_vbase :: "(string \<Rightarrow> real option list) \<Rightarrow> metadata \<Rightarrow> nat series" where
  "time_retract_vbase retract_times metadata =
     (let time_retract = retract_times (md_filename metadata);
          test_guess_vvsb = md_guess_vvsb_start metadata
      in zip [0..<length time_retract]
             (map (map_option (\<lambda>t. t - test_guess_vvsb)) time_retract))"

definition generate_mplayer_guesses_and_sync ::
  "(string \<Rightarrow> real option list) \<Rightarrow> (real list \<Rightarrow> real list \<Rightarrow> error + real list) \<Rightarrow>
     metadata \<Rightarrow> real list option \<Rightarrow> real list \<Rightarrow> int \<Rightarrow> int \<Rightarrow> error + printed list" where
  "generate_mplayer_guesses_and_sync retract_times polyfit metadata user_results guess N pre_time =
     (let initial_guess = guess;
          video_duration = md_duration_video metadata
      in case generate_test_times_for_user (time_retract_vbase retract_times metadata)
                video_duration initial_guess N 30 of
           Inl e \<Rightarrow> Inl e
         | Inr (test_times, test_next_times) \<Rightarrow>
        (case print_mplayer_commands pre_time (md_filename_video metadata)
                (zip test_times test_next_times) of
           Inl e \<Rightarrow> Inl e
         | Inr commands \<Rightarrow>
        (case user_results of
           None \<Rightarrow> Inr commands
         | Some results \<Rightarrow>
             if int (length results) \<noteq> N
             then Inr (commands @ [Warning_len N (length results)])
             else
               (let values = List.map_filter id test_times
                in case polyfit values results of
                     Inl e \<Rightarrow> Inl e
                   | Inr new_fit \<Rightarrow>
                       (let resids = map2 (-) (map (polyval new_fit) values) results;
                            combined_fit =
                              polyval_poly1d (poly1d new_fit) (poly1d initial_guess)
                        in Inr (commands @
                             [Print_name (path_tail (md_filename metadata)),
                              Print_name (path_tail (md_filename_video metadata)),
                              Print_combined_fit combined_fit,
                              Print_resids resids]))))))"

text \<open>
  The least-squares line through the points \<open>(x, y)\<close>, slope first: what
  \<open>np.polyfit(x, y, deg=1)\<close> computes when the \<open>x\<close> are not all equal. numpy raises
  TypeError on an empty \<open>x\<close> and on lists of different lengths.
\<close>

definition polyfit_deg1 :: "real list \<Rightarrow> real list \<Rightarrow> error + real list" where
  "polyfit_deg1 xs ys =
     (if xs = [] \<or> length xs \<noteq> length ys then Inl TypeError
      else
        (let n = real (length xs);
             sx = sum_list xs;
             sy = sum_list ys;
             sxx = sum_list (map2 (*) xs xs);
             sxy = sum_list (map2 (*) xs ys);
             d = n * sxx - sx * sx
         in Inr [(n * sxy - sx * sy) / d, (sy * sxx - sx * sxy) / d]))"

section \<open>behavior.py: the tables of mice and rigs\<close>

definition mice :: "string list" where
  "mice = [''AM03'', ''AM05'', ''KF13'', ''KM14'', ''KF16'', ''KF17'', ''KF18'', ''KF19'',
           ''KM24'', ''KM25'']"

definition rigs :: "string list" where
  "rigs = [''L1'', ''L2'', ''L3'']"

definition aliases :: "(string \<times> string) list" where
  "aliases = [(''KF13A'', ''KF13''), (''AM03A'', ''AM03'')]"

section \<open>Python's regular expressions, as far as the patterns of behavior.py go\<close>

text \<open>
  The patterns are sequences of literal characters and of the groups \<open>(\S+)\<close> and
  \<open>(\d+)\<close>. \<open>\S\<close> is any character but a space, tab, newline, vertical tab, form
  feed or carriage return; \<open>\d\<close> is a decimal digit.
\<close>

datatype re_item = Lit char | Non_space_group | Digit_group

definition is_space :: "char \<Rightarrow> bool" where
  "is_space c = (c \<in> set [CHR '' '', CHR 0x09, CHR 0x0A, CHR 0x0B, CHR 0x0C, CHR 0x0D])"

definition is_digit :: "char \<Rightarrow> bool" where
  "is_digit c = (c \<in> set ''0123456789'')"

text \<open>
  A group is greedy: it first takes the longest run of its characters, and gives characters
  back one at a time while the rest of the pattern fails to match; it keeps at least one.
  \<open>try_lengths k s n\<close> tries the lengths \<open>n\<close>, \<open>n - 1\<close>, ..., 1 for the group at the
  front of \<open>s\<close>, where \<open>k\<close> matches the rest of the pattern.
\<close>

fun try_lengths :: "(string \<Rightarrow> string list option) \<Rightarrow> string \<Rightarrow> nat \<Rightarrow> string list option" where
  "try_lengths k s 0 = None"
| "try_lengths k s (Suc n) =
     (case k (drop (Suc n) s) of
        Some groups \<Rightarrow> Some (take (Suc n) s # groups)
      | None \<Rightarrow> try_lengths k s n)"

text \<open>
  \<open>re.match(pattern, s)\<close>: the pattern must match at the start of \<open>s\<close>, not all of it.
  The result is \<open>m.groups()\<close>, or \<open>None\<close>.
\<close>

fun re_match :: "re_item list \<Rightarrow> string \<Rightarrow> string list option" where
  "re_match [] s = Some []"
| "re_match (Lit c # r) s =
     (case s of [] \<Rightarrow> None | x # xs \<Rightarrow> if x = c then re_match r xs else None)"
| "re_match (Non_space_group # r) s =
     try_lengths (\<lambda>s'. re_match r s') s (length (takeWhile (\<lambda>c. \<not> is_space c) s))"
| "re_match (Digit_group # r) s =
     try_lengths (\<lambda>s'. re_match r s') s (length (takeWhile is_digit s))"

text \<open>\<open>re.search(pattern, s)\<close>: the first position of \<open>s\<close> where the pattern matches.\<close>

fun re_search :: "re_item list \<Rightarrow> string \<Rightarrow> string list option" where
  "re_search pattern [] = re_match pattern []"
| "re_search pattern (x # xs) =
     (case re_match pattern (x # xs) of
        Some groups \<Rightarrow> Some groups
      | None \<Rightarrow> re_search pattern xs)"

text \<open>The patterns of \<open>parse_behavior_filenames\<close> and \<open>parse_video_filenames\<close>.\<close>

definition behavior_pattern :: "re_item list" where
  \<comment> \<open>\<^verbatim>\<open>(\S+)/(\S+)/ardulines\.(\d+)\.(\S+)\<close>\<close>
  "behavior_pattern =
     [Non_space_group, Lit CHR ''/'', Non_space_group, Lit CHR ''/''] @ map Lit ''ardulines.'' @
     [Digit_group, Lit CHR ''.'', Non_space_group]"

definition video_pattern :: "re_item list" where
  \<comment> \<open>\<^verbatim>\<open>(\S+)/(\S+)\.(\d+)\.(\S+)\<close>\<close>
  "video_pattern =
     [Non_space_group, Lit CHR ''/'', Non_space_group, Lit CHR ''.'', Digit_group,
      Lit CHR ''.'', Non_space_group]"

definition duration_pattern :: "re_item list" where
  \<comment> \<open>\<^verbatim>\<open>Duration: (\S+),\<close>\<close>
  "duration_pattern = map Lit ''Duration: '' @ [Non_space_group, Lit CHR '','']"

text \<open>\<open>needle in hay\<close> on strings.\<close>

fun starts_with :: "string \<Rightarrow> string \<Rightarrow> bool" where
  "starts_with [] s = True"
| "starts_with (c # cs) [] = False"
| "starts_with (c # cs) (x # xs) = (c = x \<and> starts_with cs xs)"

fun contains :: "string \<Rightarrow> string \<Rightarrow> bool" where
  "contains needle [] = starts_with needle []"
| "contains needle (x # xs) = (starts_with needle (x # xs) \<or> contains needle xs)"

text \<open>\<open>str.upper\<close> on a byte string: the letters a to z become A to Z.\<close>

definition upper :: "string \<Rightarrow> string" where
  "upper s =
     map (\<lambda>c. case map_of (zip ''abcdefghijklmnopqrstuvwxyz'' ''ABCDEFGHIJKLMNOPQRSTUVWXYZ'') c of
                 None \<Rightarrow> c | Some u \<Rightarrow> u) s"

section \<open>What the parsers take from outside\<close>

text \<open>
  The file system, the clock formats and ffprobe are not code of the repository; the parsers
  take them as an environment. A time stamp is an integer number of nanoseconds, a duration
  too.
  \<^item> \<open>abspath\<close> is \<open>os.path.abspath\<close>;
  \<^item> \<open>strptime\<close> is \<open>datetime.strptime(s, '%Y%m%d%H%M%S')\<close>, \<open>None\<close> where it raises
    ValueError;
  \<^item> \<open>get_file_time\<close> is the modification time of a file
    (\<open>datetime.fromtimestamp(misc.get_file_time(filename))\<close>);
  \<^item> \<open>ffprobe\<close> is the text that \<open>ffprobe filename\<close> writes;
  \<^item> \<open>strptime_duration\<close> is \<open>datetime.strptime(s, '%H:%M:%S.%f')\<close> turned into a
    \<open>timedelta\<close>, \<open>None\<close> where it raises ValueError.
\<close>

record env =
  abspath :: "string \<Rightarrow> string"
  strptime :: "string \<Rightarrow> int option"
  get_file_time :: "string \<Rightarrow> int"
  ffprobe :: "string \<Rightarrow> string"
  strptime_duration :: "string \<Rightarrow> int option"

section \<open>behavior.py: parse_behavior_filenames\<close>

record behavior_file =
  dir :: string
  rig :: string
  mouse :: string
  dt_start :: int
  dt_end :: int
  duration :: int
  filename :: string

datatype warning = No_behavior_files_found

text \<open>
  The loop over the file names, which builds \<open>rec_l\<close>. A name that does not match is
  skipped; \<open>strptime\<close> raises ValueError on a date string that is not a date.
\<close>

fun behavior_records :: "env \<Rightarrow> string list \<Rightarrow> error + behavior_file list" where
  "behavior_records e [] = Inr []"
| "behavior_records e (f # fs) =
     (case re_match behavior_pattern (abspath e f) of
        None \<Rightarrow> behavior_records e fs
      | Some [d, r, date_s, m] \<Rightarrow>
          (case strptime e date_s of
             None \<Rightarrow> Inl ValueError
           | Some date \<Rightarrow>
               (let behavior_end_time = get_file_time e f
                in case behavior_records e fs of
                     Inl err \<Rightarrow> Inl err
                   | Inr rec_l \<Rightarrow>
                       Inr (\<lparr>dir = d, rig = r, mouse = m, dt_start = date,
                             dt_end = behavior_end_time,
                             duration = behavior_end_time - date, filename = f\<rparr> # rec_l)))
      | Some _ \<Rightarrow> Inl ValueError)"

text \<open>\<open>Series.replace(aliases)\<close>: a value that is a key of the table becomes its entry.\<close>

definition replace_aliases :: "string \<Rightarrow> string" where
  "replace_aliases m = (case map_of aliases m of None \<Rightarrow> m | Some v \<Rightarrow> v)"

definition clean_mouse :: "behavior_file \<Rightarrow> behavior_file" where
  "clean_mouse r = r\<lparr>mouse := replace_aliases (upper (mouse r))\<rparr>"

definition parse_behavior_filenames ::
  "env \<Rightarrow> string list \<Rightarrow> bool \<Rightarrow> error + (warning list \<times> behavior_file list)" where
  "parse_behavior_filenames e all_behavior_files clean =
     (case behavior_records e all_behavior_files of
        Inl err \<Rightarrow> Inl err
      | Inr behavior_files_df \<Rightarrow>
          if length behavior_files_df = 0 then Inr ([No_behavior_files_found], behavior_files_df)
          else if clean then
            Inr ([], filter (\<lambda>r. mouse r \<in> set mice) (map clean_mouse behavior_files_df))
          else Inr ([], behavior_files_df))"

section \<open>behavior.py: parse_video_filenames\<close>

text \<open>
  A row of the frame of video files. When ffprobe finds invalid data the row has neither
  \<open>duration\<close> nor \<open>dt_start\<close>.
\<close>

record video_file =
  filename_video :: string
  rig_video :: string
  dt_end_video :: int
  duration_video :: "int option"
  dt_start_video :: "int option"

text \<open>
  The frame that the function returns: the rows, or what
  \<open>pandas.concat([resdf, cached_video_files_df], axis=1, ignore_index=True)\<close> makes of the
  new rows and the cached rows, the two frames side by side under numbered columns.
\<close>

datatype video_files_df =
    Frame "video_file list"
  | Concat_axis1 "video_file list" "video_file list"

text \<open>What the function does to the outside, in order: its prints, and its calls of ffprobe.\<close>

datatype event =
    Print_video_filename string
  | Ffprobe string
  | Print_invalid_data string

definition and_then ::
  "event list \<Rightarrow> video_file list \<Rightarrow> event list \<times> (error + video_file list) \<Rightarrow>
     event list \<times> (error + video_file list)" where
  "and_then evs recs rest =
     (case rest of
        (evs', Inl err) \<Rightarrow> (evs @ evs', Inl err)
      | (evs', Inr rec_l) \<Rightarrow> (evs @ evs', Inr (recs @ rec_l)))"

text \<open>
  The loop over the video file names (lines 308 to 356). Its first statement reads
  \<open>cached_video_files_df.filename\<close>, which raises AttributeError when
  \<open>cached_video_files_df\<close> is \<open>None\<close>.
\<close>

fun probe_loop ::
  "env \<Rightarrow> bool \<Rightarrow> video_file list option \<Rightarrow> string list \<Rightarrow> event list \<times> (error + video_file list)" where
  "probe_loop e verbose cached [] = ([], Inr [])"
| "probe_loop e verbose cached (f # fs) =
     (case cached of
        None \<Rightarrow> ([], Inl AttributeError)
      | Some c \<Rightarrow>
          if f \<in> set (map filename_video c) then probe_loop e verbose cached fs
          else
            (let evs1 = (if verbose then [Print_video_filename f] else [])
             in case re_match video_pattern (abspath e f) of
                  None \<Rightarrow> and_then evs1 [] (probe_loop e verbose cached fs)
                | Some [d, r, date_s, video_ext] \<Rightarrow>
                    (case strptime e date_s of
                       None \<Rightarrow> (evs1, Inl ValueError)
                     | Some video_end_time \<Rightarrow>
                         (let res = ffprobe e f;
                              evs2 = evs1 @ [Ffprobe f]
                          in if contains ''Invalid data found when processing input'' res
                             then and_then
                                    (evs2 @ (if verbose then [Print_invalid_data f] else []))
                                    [\<lparr>filename_video = f, rig_video = r,
                                      dt_end_video = video_end_time,
                                      duration_video = None, dt_start_video = None\<rparr>]
                                    (probe_loop e verbose cached fs)
                             else
                               (case re_search duration_pattern res of
                                  Some [duration_s] \<Rightarrow>
                                    (case strptime_duration e duration_s of
                                       None \<Rightarrow> (evs2, Inl ValueError)
                                     | Some video_duration \<Rightarrow>
                                         and_then evs2
                                           [\<lparr>filename_video = f, rig_video = r,
                                             dt_end_video = video_end_time,
                                             duration_video = Some video_duration,
                                             dt_start_video =
                                               Some (video_end_time - video_duration)\<rparr>]
                                           (probe_loop e verbose cached fs))
                                | _ \<Rightarrow> (evs2, Inl AssertionError))))
                | Some _ \<Rightarrow> (evs1, Inl ValueError)))"

definition parse_video_filenames ::
  "env \<Rightarrow> string list \<Rightarrow> bool \<Rightarrow> video_file list option \<Rightarrow>
     event list \<times> (error + video_files_df)" where
  "parse_video_filenames e video_filenames verbose cached_video_files_df =
     (if (case cached_video_files_df of
            None \<Rightarrow> False
          | Some c \<Rightarrow> \<not> list_all (\<lambda>f. f \<in> set video_filenames) (map filename_video c))
      then ([], Inl ValueError)
      else
        (case probe_loop e verbose cached_video_files_df video_filenames of
           (evs, Inl err) \<Rightarrow> (evs, Inl err)
         | (evs, Inr resdf) \<Rightarrow>
             (evs, Inr (case cached_video_files_df of
                          None \<Rightarrow> Frame resdf
                        | Some c \<Rightarrow> if length resdf = 0 then Frame c
                                    else Concat_axis1 resdf c))))"

section \<open>behavior.py: the best video of each behavior file\<close>

text \<open>
  Lines 198 to 223 of \<open>search_for_behavior_and_video_files\<close>. A behavior row gets the
  columns \<open>best_video_index\<close>, first -1, and \<open>best_video_overlap\<close>, first 0.
\<close>

record behavior_match =
  brow :: behavior_file
  best_video_index :: int
  best_video_overlap :: real

text \<open>
  \<open>earliest_end - latest_start\<close> for one video: the earlier of the two ends minus the
  later of the two starts, in nanoseconds; NaT (here \<open>None\<close>) when the video has no start.
\<close>

definition overlap :: "behavior_file \<Rightarrow> video_file \<Rightarrow> int option" where
  "overlap b v =
     (case dt_start_video v of
        None \<Rightarrow> None
      | Some start_v \<Rightarrow> Some (min (dt_end_video v) (dt_end b) - max start_v (dt_start b)))"

text \<open>The series \<open>overlap\<close>: the videos of the rig of the row, under their row numbers.\<close>

definition overlaps :: "video_file list \<Rightarrow> behavior_file \<Rightarrow> (nat \<times> int option) list" where
  "overlaps video_files_df b =
     map (\<lambda>(i, v). (i, overlap b v))
       (filter (\<lambda>(i, v). rig_video v = rig b) (List.enumerate 0 video_files_df))"

text \<open>
  The body of the loop for one row. The frame of videos is the one that
  \<open>DataFrame.from_records\<close> builds: without any row it has no column \<open>rig\<close>
  (AttributeError), and without any row that has a start it has no column \<open>dt_start\<close>
  (KeyError). \<open>overlap.argmax()\<close> raises ValueError on an empty series; when it returns
  NaN the lookup \<open>overlap.ix[vidx_max_overlap]\<close> fails.
\<close>

definition best_video :: "video_file list \<Rightarrow> behavior_file \<Rightarrow> error + behavior_match" where
  "best_video video_files_df b =
     (if video_files_df = [] then Inl AttributeError
      else if list_all (\<lambda>v. dt_start_video v = None) video_files_df then Inl KeyError
      else
        (case idxmax (overlaps video_files_df b) of
           Inl err \<Rightarrow> Inl err
         | Inr None \<Rightarrow> Inl KeyError
         | Inr (Some vidx_max_overlap) \<Rightarrow>
             (case map_of (overlaps video_files_df b) vidx_max_overlap of
                Some (Some ov) \<Rightarrow>
                  (let max_overlap_sec = real_of_int ov / 1000000000
                   in if max_overlap_sec > 0
                      then Inr \<lparr>brow = b, best_video_index = int vidx_max_overlap,
                                best_video_overlap = max_overlap_sec\<rparr>
                      else Inr \<lparr>brow = b, best_video_index = - 1, best_video_overlap = 0\<rparr>)
              | _ \<Rightarrow> Inl KeyError)))"

fun best_videos :: "video_file list \<Rightarrow> behavior_file list \<Rightarrow> error + behavior_match list" where
  "best_videos video_files_df [] = Inr []"
| "best_videos video_files_df (b # bs) =
     (case best_video video_files_df b of
        Inl err \<Rightarrow> Inl err
      | Inr m \<Rightarrow> (case best_videos video_files_df bs of
                    Inl err \<Rightarrow> Inl err
                  | Inr ms \<Rightarrow> Inr (m # ms)))"

section \<open>A session to check\<close>

text \<open>
  A behavior file with seven retraction times, matched to a video of 300 seconds that is
  guessed to start 5 seconds after the behavior clock.
\<close>

definition ex_retract_times :: "string \<Rightarrow> real option list" where
  "ex_retract_times f = map Some [35, 45, 65, 95, 135, 145, 195]"

definition ex_metadata :: metadata where
  "ex_metadata = \<lparr>md_filename = ''/b/L1/ardulines.20190101120500.KF13'',
     md_filename_video = ''/v/L1.20190101130000.mp4'',
     md_guess_vvsb_start = 5, md_duration_video = 300\<rparr>"

definition ex_commands :: "printed list" where
  "ex_commands =
     [Mplayer_command 40 ''/v/L1.20190101130000.mp4'' 50 (Some 70),
      Mplayer_command 90 ''/v/L1.20190101130000.mp4'' 100 (Some 140),
      Mplayer_command 140 ''/v/L1.20190101130000.mp4'' 150 (Some 200)]"

section \<open>Files to parse and to match\<close>

text \<open>
  An environment in which paths are absolute already, the time stamps are those of 1 January
  2019 (in nanoseconds since midnight), every behavior file was last written at 13:05:00 and
  every video lasts one hour.
\<close>

definition ex_env :: env where
  "ex_env = \<lparr>abspath = (\<lambda>path. path),
     strptime = map_of [(''20190101120000'', 43200000000000),
                        (''20190101120500'', 43500000000000),
                        (''20190101130000'', 46800000000000)],
     get_file_time = (\<lambda>f. 47100000000000),
     ffprobe = (\<lambda>f. ''  Duration: 01:00:00.00, start: 0.000000, bitrate: 500 kb/s''),
     strptime_duration = map_of [(''01:00:00.00'', 3600000000000)]\<rparr>"

text \<open>
  A behavior session on rig L1 from 12:05:00 to 13:05:00, and three videos: one on rig L2 and
  one on rig L1, both from 12:00:00 to 13:00:00, and one on rig L1 that ffprobe could not
  read.
\<close>

definition ex_behavior :: behavior_file where
  "ex_behavior = \<lparr>dir = ''/b'', rig = ''L1'', mouse = ''KF13'',
     dt_start = 43500000000000, dt_end = 47100000000000, duration = 3600000000000,
     filename = ''/b/L1/ardulines.20190101120500.KF13''\<rparr>"

definition ex_video_L2 :: video_file where
  "ex_video_L2 = \<lparr>filename_video = ''/v/L2.20190101130000.mp4'', rig_video = ''L2'',
     dt_end_video = 46800000000000, duration_video = Some 3600000000000,
     dt_start_video = Some 43200000000000\<rparr>"

definition ex_video_L1 :: video_file where
  "ex_video_L1 = \<lparr>filename_video = ''/v/L1.20190101130000.mp4'', rig_video = ''L1'',
     dt_end_video = 46800000000000, duration_video = Some 3600000000000,
     dt_start_video = Some 43200000000000\<rparr>"

definition ex_video_bad :: video_file where
  "ex_video_bad = \<lparr>filename_video = ''/v/L1.20190101120000.mp4'', rig_video = ''L1'',
     dt_end_video = 43200000000000, duration_video = None, dt_start_video = None\<rparr>"

section \<open>Properties\<close>

lemma mask_below_index: "map fst (mask_below lo ser) = map fst ser"
  by (induction ser) (auto simp: mask_below_def)

lemma mask_above_index: "map fst (mask_above hi ser) = map fst ser"
  by (induction ser) (auto simp: mask_above_def)

lemma mask_by_buffer_from_end_value:
  assumes "(l, Some x) \<in> set (mask_by_buffer_from_end ser end_time buffer)"
  shows "buffer \<le> x \<and> x \<le> end_time - buffer \<and> (l, Some x) \<in> set ser"
  using assms
  by (auto simp: mask_by_buffer_from_end_def mask_above_def mask_below_def
           split: option.splits if_splits)

text \<open>
  Claim C6. After \<open>mask_by_buffer_from_end\<close> the series has the index it had (the same
  labels in the same order, so the same length), and every entry is NaN or a value \<open>x\<close>
  with \<open>buffer \<le> x \<le> end_time - buffer\<close>.
\<close>

theorem mask_by_buffer_from_end_bounds:
  "map fst (mask_by_buffer_from_end ser end_time buffer) = map fst ser \<and>
   length (mask_by_buffer_from_end ser end_time buffer) = length ser \<and>
   (\<forall>(l, v) \<in> set (mask_by_buffer_from_end ser end_time buffer).
      v = None \<or> (\<exists>x. v = Some x \<and> buffer \<le> x \<and> x \<le> end_time - buffer))"
proof -
  have idx: "map fst (mask_by_buffer_from_end ser end_time buffer) = map fst ser"
    by (simp add: mask_by_buffer_from_end_def mask_above_index mask_below_index)
  have len: "length (mask_by_buffer_from_end ser end_time buffer) = length ser"
    by (simp add: mask_by_buffer_from_end_def mask_above_def mask_below_def)
  have vals: "\<forall>(l, v) \<in> set (mask_by_buffer_from_end ser end_time buffer).
      v = None \<or> (\<exists>x. v = Some x \<and> buffer \<le> x \<and> x \<le> end_time - buffer)"
  proof -
    have "v = None \<or> (\<exists>x. v = Some x \<and> buffer \<le> x \<and> x \<le> end_time - buffer)"
      if a: "(l, v) \<in> set (mask_by_buffer_from_end ser end_time buffer)" for l v
    proof (cases v)
      case None
      then show ?thesis by simp
    next
      case (Some x)
      with a mask_by_buffer_from_end_value [of l x ser end_time buffer] show ?thesis by simp
    qed
    then show ?thesis by auto
  qed
  from idx len vals show ?thesis by blast
qed

theorem mask_by_buffer_from_end_bounds_witness:
  "mask_by_buffer_from_end [(0::nat, Some 5), (1, Some 50), (2, None), (3, Some 95)] 100 10
     = [(0, None), (1, Some 50), (2, None), (3, None)] \<and>
   map fst (mask_by_buffer_from_end [(0::nat, Some 5), (1, Some 50), (2, None), (3, Some 95)] 100 10)
     = [0, 1, 2, 3] \<and>
   length (mask_by_buffer_from_end [(0::nat, Some 5), (1, Some 50), (2, None), (3, Some 95)] 100 10)
     = 4"
  using mask_by_buffer_from_end_bounds
    [of "[(0::nat, Some 5), (1, Some 50), (2, None), (3, Some 95)]" 100 10]
  by (simp add: mask_by_buffer_from_end_def mask_above_def mask_below_def)

subsection \<open>Polynomials\<close>

lemma polyval_Nil [simp]: "polyval [] x = 0"
  by (simp add: polyval_def)

lemma polyval_snoc: "polyval (p @ [a]) x = polyval p x * x + a"
  by (simp add: polyval_def)

lemma polyval_Cons: "polyval (a # p) x = a * x ^ length p + polyval p x"
proof (induction p rule: rev_induct)
  case Nil
  then show ?case by (simp add: polyval_def)
next
  case (snoc b p)
  have "polyval (a # p @ [b]) x = polyval ((a # p) @ [b]) x" by simp
  also have "\<dots> = polyval (a # p) x * x + b" by (rule polyval_snoc)
  finally show ?case using snoc by (simp add: polyval_snoc algebra_simps)
qed

lemma polyval_zeros_front: "polyval (replicate n 0 @ p) x = polyval p x"
  by (induction n) (simp_all add: polyval_Cons)

lemma polyval_zeros_back: "polyval (p @ replicate n 0) x = polyval p x * x ^ n"
proof (induction n)
  case 0
  then show ?case by simp
next
  case (Suc n)
  have "polyval (p @ replicate (Suc n) 0) x = polyval ((p @ replicate n 0) @ [0]) x"
    by (simp add: replicate_append_same)
  also have "\<dots> = polyval (p @ replicate n 0) x * x + 0"
    by (rule polyval_snoc)
  finally show ?case using Suc by simp
qed

lemma polyval_map2_add:
  "length a = length b \<Longrightarrow> polyval (map2 (+) a b) x = polyval a x + polyval b x"
  by (induction a b rule: list_induct2) (simp_all add: polyval_Cons algebra_simps)

lemma polyval_polyadd: "polyval (polyadd a b) x = polyval a x + polyval b x"
proof -
  have "length (replicate (length b - length a) 0 @ a)
        = length (replicate (length a - length b) 0 @ b)" by simp
  then show ?thesis
    unfolding polyadd_def by (simp only: polyval_map2_add polyval_zeros_front)
qed

lemma polyval_scale: "polyval (map ((*) c) p) x = c * polyval p x"
  by (induction p rule: rev_induct) (simp_all add: polyval_snoc algebra_simps)

lemma polyval_convolve: "polyval (convolve a b) x = polyval a x * polyval b x"
  by (induction a)
     (simp_all add: polyval_polyadd polyval_zeros_back polyval_scale polyval_Cons algebra_simps)

lemma poly1d_Cons: "poly1d (a # c) = (if a = 0 then poly1d c else a # c)"
  by (simp add: poly1d_def)

lemma polyval_poly1d: "polyval (poly1d c) x = polyval c x"
  by (induction c) (simp_all add: poly1d_Cons polyval_Cons, simp add: poly1d_def polyval_def)

lemma polyval_poly1d_times: "polyval (poly1d_times y g) x = polyval y x * polyval g x"
  by (simp add: poly1d_times_def polyval_poly1d polyval_convolve)

lemma polyval_poly1d_plus: "polyval (poly1d_plus y pv) x = polyval y x + pv"
  by (simp add: poly1d_plus_def polyval_poly1d polyval_polyadd polyval_Cons)

lemma polyval_horner_loop:
  "polyval (foldl (\<lambda>y pv'. poly1d_plus (poly1d_times y g) pv') y ps) t
     = foldl (\<lambda>a pv. a * polyval g t + pv) (polyval y t) ps"
  by (induction ps arbitrary: y) (simp_all add: polyval_poly1d_plus polyval_poly1d_times)

text \<open>
  Evaluating a polynomial at a polynomial composes them: the result, evaluated at \<open>t\<close>,
  is \<open>p\<close> evaluated at the value of \<open>g\<close> at \<open>t\<close>.
\<close>

lemma polyval_polyval_poly1d: "polyval (polyval_poly1d p g) t = polyval p (polyval g t)"
proof (cases p)
  case Nil
  then show ?thesis by (simp add: polyval_def)
next
  case (Cons pv ps)
  have "polyval (poly1d_plus (poly1d (map ((*) 0) g)) pv) t = 0 * polyval g t + pv"
    by (simp add: polyval_poly1d_plus polyval_poly1d polyval_scale)
  then show ?thesis using Cons
    by (simp add: polyval_horner_loop) (simp add: polyval_def)
qed

subsection \<open>The times to check\<close>

lemma biggest_diffs_loop_length:
  "biggest_diffs_loop ser ps = Inr res \<Longrightarrow> length res = length ps - 1"
  by (induction ser ps arbitrary: res rule: biggest_diffs_loop.induct)
     (auto split: sum.splits)

lemma generate_test_times_for_user_length:
  assumes "generate_test_times_for_user times0 max_time initial_guess N buffer = Inr (tt, tn)"
  shows "length tt = nat N \<and> length tn = nat N"
proof -
  from assms obtain idxs where
    idxs: "index_of_biggest_diffs_across_arr
             (mask_by_buffer_from_end (map (\<lambda>(l, v). (l, polyval_nan initial_guess v)) times0)
                max_time buffer) N = Inr idxs"
    and tt: "length tt = length idxs" and tn: "length tn = length idxs"
    by (auto simp: generate_test_times_for_user_def Let_def ix_labels_def split: sum.splits)
  from idxs have "length idxs = nat N"
    by (auto simp: index_of_biggest_diffs_across_arr_def Let_def cut_positions_def
             split: if_splits dest!: biggest_diffs_loop_length)
  with tt tn show ?thesis by simp
qed

lemma print_mplayer_commands_only_commands:
  "print_mplayer_commands pre_time fv zs = Inr out \<Longrightarrow>
     Warning_len a b \<notin> set out \<and> Print_combined_fit c \<notin> set out \<and> Print_resids r \<notin> set out \<and>
     Print_name n \<notin> set out"
  by (induction pre_time fv zs arbitrary: out rule: print_mplayer_commands.induct)
     (auto split: sum.splits)

lemma print_mplayer_commands_values:
  "print_mplayer_commands pre_time fv zs = Inr out \<Longrightarrow>
     map fst zs = map Some (List.map_filter id (map fst zs))"
  by (induction pre_time fv zs arbitrary: out rule: print_mplayer_commands.induct)
     (auto simp: List.map_filter_simps split: sum.splits)

subsection \<open>The seek of frame_dump\<close>

text \<open>
  Claim C10, amended. With \<open>meth = 'ffmpeg best'\<close> and \<open>frametime \<ge> 0\<close>, the command
  seeks to \<open>coarse = max(0, frametime - subseek_cushion)\<close> and then to
  \<open>fine = frametime - coarse\<close>; \<open>coarse \<ge> 0\<close> and \<open>coarse + fine = frametime\<close> for
  every cushion, and \<open>fine \<ge> 0\<close> exactly when the cushion is not negative or the
  frametime is at most the cushion: so for every cushion that is not negative.
\<close>

theorem frame_dump_best_seek_split:
  assumes "0 \<le> frametime"
  shows "\<exists>coarse fine.
           frame_dump_syscall in_file frametime out_file ''ffmpeg best'' subseek_cushion
             = Inr (Some (Ffmpeg_best coarse in_file fine out_file)) \<and>
           frame_dump check_output in_file frametime out_file ''ffmpeg best''
               subseek_cushion True True very_verbose
             = Inr ([Print_syscall (Ffmpeg_best coarse in_file fine out_file)], None) \<and>
           coarse = max 0 (frametime - subseek_cushion) \<and>
           fine = frametime - coarse \<and>
           0 \<le> coarse \<and>
           coarse + fine = frametime \<and>
           (0 \<le> fine \<longleftrightarrow> 0 \<le> subseek_cushion \<or> frametime \<le> subseek_cushion)"
  using assms by (auto simp: frame_dump_syscall_def frame_dump_def Let_def max_def)

theorem frame_dump_best_seek_split_witness:
  "frame_dump_syscall ''in.mp4'' 50 ''out.png'' ''ffmpeg best'' 20
     = Inr (Some (Ffmpeg_best 30 ''in.mp4'' 20 ''out.png'')) \<and>
   frame_dump_syscall ''in.mp4'' 5 ''out.png'' ''ffmpeg best'' 20
     = Inr (Some (Ffmpeg_best 0 ''in.mp4'' 5 ''out.png''))"
  using frame_dump_best_seek_split [of 50 "''in.mp4''" "''out.png''" 20]
        frame_dump_best_seek_split [of 5 "''in.mp4''" "''out.png''" 20]
  by (simp add: frame_dump_syscall_def)

text \<open>
  With a negative cushion the fine seek is negative: at \<open>frametime = 10\<close> and
  \<open>subseek_cushion = -5\<close> the command seeks to 15 and then by -5.
\<close>

theorem frame_dump_negative_cushion_counterexample:
  "frame_dump_syscall ''in.mp4'' 10 ''out.png'' ''ffmpeg best'' (- 5)
     = Inr (Some (Ffmpeg_best 15 ''in.mp4'' (- 5) ''out.png'')) \<and>
   (0::real) \<le> 10 \<and> (- 5 :: real) < 0"
  by (simp add: frame_dump_syscall_def)

subsection \<open>The refit\<close>

text \<open>
  Claim C1. When the times to check were chosen and printed, \<open>user_results\<close> has
  \<open>N\<close> entries and \<open>polyfit\<close> returns \<open>new_fit\<close>, the function prints a combined fit,
  and the combined fit at every \<open>t\<close> is \<open>new_fit\<close> at the value of the initial guess at
  \<open>t\<close>: the initial guess is applied first, the new fit second.
\<close>

theorem combined_fit_is_new_fit_after_guess:
  assumes "generate_test_times_for_user (time_retract_vbase retract_times metadata)
             (md_duration_video metadata) guess N 30 = Inr (test_times, test_next_times)"
    and "print_mplayer_commands pre_time (md_filename_video metadata)
             (zip test_times test_next_times) = Inr commands"
    and "int (length results) = N"
    and "polyfit (List.map_filter id test_times) results = Inr new_fit"
  shows "\<exists>combined_fit resids.
           generate_mplayer_guesses_and_sync retract_times polyfit metadata (Some results)
               guess N pre_time
             = Inr (commands @
                 [Print_name (path_tail (md_filename metadata)),
                  Print_name (path_tail (md_filename_video metadata)),
                  Print_combined_fit combined_fit, Print_resids resids]) \<and>
           (\<forall>t. polyval combined_fit t = polyval new_fit (polyval guess t))"
  using assms
  by (simp add: generate_mplayer_guesses_and_sync_def Let_def polyval_polyval_poly1d
        polyval_poly1d)

text \<open>
  Claim C4, amended. Under the same conditions the residuals that the function prints are
  predicted minus observed: for each point, the new fit at the guessed time minus the video
  time that the user gave; there is one residual for each of the \<open>N\<close> points.
\<close>

theorem resids_are_predicted_minus_observed:
  assumes sel: "generate_test_times_for_user (time_retract_vbase retract_times metadata)
             (md_duration_video metadata) guess N 30 = Inr (test_times, test_next_times)"
    and cmds: "print_mplayer_commands pre_time (md_filename_video metadata)
             (zip test_times test_next_times) = Inr commands"
    and len: "int (length results) = N"
    and fit: "polyfit (List.map_filter id test_times) results = Inr new_fit"
  shows "\<exists>combined_fit resids guessed.
           generate_mplayer_guesses_and_sync retract_times polyfit metadata (Some results)
               guess N pre_time
             = Inr (commands @
                 [Print_name (path_tail (md_filename metadata)),
                  Print_name (path_tail (md_filename_video metadata)),
                  Print_combined_fit combined_fit, Print_resids resids]) \<and>
           test_times = map Some guessed \<and>
           length guessed = length results \<and>
           length resids = length results \<and>
           (\<forall>i. i < length results \<longrightarrow>
                resids ! i = polyval new_fit (guessed ! i) - results ! i)"
proof -
  define guessed where "guessed = List.map_filter id test_times"
  define resids where "resids = map2 (-) (map (polyval new_fit) guessed) results"
  from generate_test_times_for_user_length [OF sel]
  have l: "length test_times = nat N" "length test_next_times = nat N" by simp_all
  then have "map fst (zip test_times test_next_times) = test_times" by simp
  with print_mplayer_commands_values [OF cmds]
  have tt: "test_times = map Some guessed" by (simp add: guessed_def)
  then have "length guessed = length test_times" by (metis length_map)
  with l len have lg: "length guessed = length results" by simp
  then have lr: "length resids = length results" by (simp add: resids_def)
  have nth: "resids ! i = polyval new_fit (guessed ! i) - results ! i"
    if "i < length results" for i
    using that lg by (simp add: resids_def)
  have "generate_mplayer_guesses_and_sync retract_times polyfit metadata (Some results)
               guess N pre_time
          = Inr (commands @
                 [Print_name (path_tail (md_filename metadata)),
                  Print_name (path_tail (md_filename_video metadata)),
                  Print_combined_fit (polyval_poly1d (poly1d new_fit) (poly1d guess)),
                  Print_resids resids])"
    using sel cmds len fit
    by (simp add: generate_mplayer_guesses_and_sync_def Let_def resids_def guessed_def)
  with tt lg lr nth show ?thesis by blast
qed

text \<open>
  With \<open>user_results\<close> of a length other than \<open>N\<close>, the function does what it does
  without \<open>user_results\<close> and then prints the warning: it raises where the run without
  \<open>user_results\<close> raises, and otherwise prints the same commands and the warning.
\<close>

lemma wrong_length_as_without_results:
  assumes "int (length results) \<noteq> N"
  shows "generate_mplayer_guesses_and_sync retract_times polyfit metadata (Some results)
             guess N pre_time
           = (case generate_mplayer_guesses_and_sync retract_times polyfit' metadata None
                     guess N pre_time of
                Inl e \<Rightarrow> Inl e
              | Inr commands \<Rightarrow> Inr (commands @ [Warning_len N (length results)]))"
  using assms
  by (auto simp: generate_mplayer_guesses_and_sync_def Let_def
           split: sum.splits prod.splits)

text \<open>
  Claim C5, amended. When the times to check were chosen and their commands printed (lines 93
  to 123, which run before the length is looked at) and \<open>user_results\<close> is given with a
  length other than \<open>N\<close>, the function prints the commands and then the warning, and
  returns: for every \<open>polyfit\<close>, so no fit enters the result, and neither a combined fit nor
  residuals are printed. The run without \<open>user_results\<close> prints the same commands.
\<close>

theorem wrong_length_warns_without_fit:
  assumes "generate_test_times_for_user (time_retract_vbase retract_times metadata)
             (md_duration_video metadata) guess N 30 = Inr (test_times, test_next_times)"
    and "print_mplayer_commands pre_time (md_filename_video metadata)
             (zip test_times test_next_times) = Inr commands"
    and "int (length results) \<noteq> N"
  shows "generate_mplayer_guesses_and_sync retract_times polyfit metadata (Some results)
             guess N pre_time
           = Inr (commands @ [Warning_len N (length results)]) \<and>
         generate_mplayer_guesses_and_sync retract_times polyfit metadata None
             guess N pre_time
           = Inr commands \<and>
         (\<forall>c. Print_combined_fit c \<notin> set (commands @ [Warning_len N (length results)])) \<and>
         (\<forall>r. Print_resids r \<notin> set (commands @ [Warning_len N (length results)]))"
proof -
  have run: "generate_mplayer_guesses_and_sync retract_times polyfit metadata (Some results)
             guess N pre_time
           = Inr (commands @ [Warning_len N (length results)])"
    using assms by (simp add: generate_mplayer_guesses_and_sync_def Let_def)
  have none: "generate_mplayer_guesses_and_sync retract_times polyfit metadata None
             guess N pre_time = Inr commands"
    using assms by (simp add: generate_mplayer_guesses_and_sync_def Let_def)
  have "Print_combined_fit c \<notin> set commands \<and> Print_resids r \<notin> set commands" for c r
    using print_mplayer_commands_only_commands [OF assms(2)] by blast
  then have "(\<forall>c. Print_combined_fit c \<notin> set (commands @ [Warning_len N (length results)])) \<and>
         (\<forall>r. Print_resids r \<notin> set (commands @ [Warning_len N (length results)]))"
    by simp
  with run none show ?thesis by blast
qed


subsection \<open>The session to check, evaluated\<close>

lemma ex_vbase:
  "time_retract_vbase ex_retract_times ex_metadata =
     [(0, Some 30), (1, Some 40), (2, Some 60), (3, Some 90), (4, Some 130), (5, Some 140),
      (6, Some 190)]"
  by (simp add: time_retract_vbase_def ex_retract_times_def ex_metadata_def upt_rec)

lemma ex_masked:
  "mask_by_buffer_from_end
     (map (\<lambda>(l, v). (l, polyval_nan [1, 10] v)) (time_retract_vbase ex_retract_times ex_metadata))
     300 30
   = [(0, Some 40), (1, Some 50), (2, Some 70), (3, Some 100), (4, Some 140), (5, Some 150),
      (6, Some 200)]"
  by (simp add: ex_vbase mask_by_buffer_from_end_def mask_above_def mask_below_def
        polyval_nan_def polyval_def)

lemma ex_idxs:
  "index_of_biggest_diffs_across_arr
     [(0, Some 40), (1, Some 50), (2, Some 70), (3, Some 100), (4, Some 140), (5, Some 150),
      (6, Some 200)] 3
   = Inr [Some 1, Some 3, Some 5]"
  by (simp add: index_of_biggest_diffs_across_arr_def dropna_def List.map_filter_simps
        cut_positions_def upt_rec idxmax_def)

lemma ex_ix:
  "ix_labels [(0, Some 40), (1, Some 50), (2, Some 70), (3, Some 100), (4, Some 140),
       (5, Some 150), (6, Some 200)] [Some 1, Some 3, Some 5]
     = [Some 50, Some 100, Some 150] \<and>
   ix_labels (shift_back [(0, Some 40), (1, Some 50), (2, Some 70), (3, Some 100),
       (4, Some 140), (5, Some 150), (6, Some 200)]) [Some 1, Some 3, Some 5]
     = [Some 70, Some 140, Some 200]"
  by (simp add: ix_labels_def)

lemma ex_duration: "md_duration_video ex_metadata = 300"
  by (simp add: ex_metadata_def)

lemma ex_filename_video: "md_filename_video ex_metadata = ''/v/L1.20190101130000.mp4''"
  by (simp add: ex_metadata_def)

lemma ex_test_times:
  "generate_test_times_for_user (time_retract_vbase ex_retract_times ex_metadata)
     (md_duration_video ex_metadata) [1, 10] 3 30
   = Inr ([Some 50, Some 100, Some 150], [Some 70, Some 140, Some 200])"
  by (simp only: generate_test_times_for_user_def Let_def ex_duration ex_masked ex_idxs ex_ix
        sum.case)

lemma ex_print:
  "print_mplayer_commands 10 (md_filename_video ex_metadata)
     (zip [Some 50, Some 100, Some 150] [Some 70, Some 140, Some 200]) = Inr ex_commands"
  by (simp add: ex_filename_video ex_commands_def py_int_def)

lemma ex_polyfit:
  "polyfit_deg1 (List.map_filter id [Some 50, Some 100, Some 150]) [51, 100, 152]
     = Inr [101 / 100, 0]"
  by (simp add: polyfit_deg1_def List.map_filter_simps)

lemma ex_combined:
  "polyval_poly1d (poly1d [101 / 100, 0]) (poly1d [1, 10]) = [101 / 100, 101 / 10]"
  by (simp add: poly1d_def poly1d_plus_def poly1d_times_def polyadd_def)

lemma ex_resids:
  "map2 (-) (map (polyval [101 / 100, 0]) (List.map_filter id [Some 50, Some 100, Some 150]))
       [51, 100, 152]
     = [- (1 / 2), 1, - (1 / 2)]"
  by (simp add: List.map_filter_simps polyval_def)

lemma ex_sync:
  "generate_mplayer_guesses_and_sync ex_retract_times polyfit_deg1 ex_metadata
       (Some [51, 100, 152]) [1, 10] 3 10
     = Inr (ex_commands @
         [Print_name (path_tail (md_filename ex_metadata)),
          Print_name (path_tail (md_filename_video ex_metadata)),
          Print_combined_fit [101 / 100, 101 / 10],
          Print_resids [- (1 / 2), 1, - (1 / 2)]])"
proof -
  have "int (length [51, 100, 152 :: real]) = 3" by simp
  then show ?thesis
    by (simp only: generate_mplayer_guesses_and_sync_def Let_def ex_test_times ex_print
          ex_polyfit ex_combined ex_resids sum.case prod.case option.case if_False
          if_True simp_thms)
qed

lemma ex_sync_no_results:
  "generate_mplayer_guesses_and_sync ex_retract_times polyfit ex_metadata None [1, 10] 3 10
     = Inr ex_commands"
  by (simp only: generate_mplayer_guesses_and_sync_def Let_def ex_test_times ex_print
        sum.case prod.case option.case)

text \<open>
  The order of the composition matters: for the guess \<open>(0.9991, 7.5)\<close> and the refit
  \<open>(1.02, -0.3)\<close> the two orders give different polynomials.
\<close>

lemma composition_order_matters:
  "polyval_poly1d (poly1d [1.02, - 0.3]) (poly1d [0.9991, 7.5])
     \<noteq> polyval_poly1d (poly1d [0.9991, 7.5]) (poly1d [1.02, - 0.3])"
  by (simp add: poly1d_def poly1d_plus_def poly1d_times_def polyadd_def)

subsection \<open>The claims of the refit at the session to check\<close>

theorem combined_fit_is_new_fit_after_guess_witness:
  "\<exists>combined_fit resids.
     generate_mplayer_guesses_and_sync ex_retract_times polyfit_deg1 ex_metadata
         (Some [51, 100, 152]) [1, 10] 3 10
       = Inr (ex_commands @
           [Print_name (path_tail (md_filename ex_metadata)),
            Print_name (path_tail (md_filename_video ex_metadata)),
            Print_combined_fit combined_fit, Print_resids resids]) \<and>
     (\<forall>t. polyval combined_fit t = polyval [101 / 100, 0] (polyval [1, 10] t))"
proof -
  have len: "int (length [51, 100, 152 :: real]) = 3" by simp
  show ?thesis
    using combined_fit_is_new_fit_after_guess
      [where polyfit = polyfit_deg1 and results = "[51, 100, 152]" and N = 3,
        OF ex_test_times ex_print len ex_polyfit] .
qed

theorem resids_are_predicted_minus_observed_witness:
  "\<exists>combined_fit resids guessed.
     generate_mplayer_guesses_and_sync ex_retract_times polyfit_deg1 ex_metadata
         (Some [51, 100, 152]) [1, 10] 3 10
       = Inr (ex_commands @
           [Print_name (path_tail (md_filename ex_metadata)),
            Print_name (path_tail (md_filename_video ex_metadata)),
            Print_combined_fit combined_fit, Print_resids resids]) \<and>
     [Some 50, Some 100, Some 150] = map Some guessed \<and>
     length guessed = length [51, 100, 152 :: real] \<and>
     length resids = length [51, 100, 152 :: real] \<and>
     (\<forall>i. i < length [51, 100, 152 :: real] \<longrightarrow>
          resids ! i = polyval [101 / 100, 0] (guessed ! i) - [51, 100, 152] ! i)"
proof -
  have len: "int (length [51, 100, 152 :: real]) = 3" by simp
  show ?thesis
    using resids_are_predicted_minus_observed
      [where polyfit = polyfit_deg1 and results = "[51, 100, 152]" and N = 3,
        OF ex_test_times ex_print len ex_polyfit] .
qed

text \<open>
  The claim that the residuals are observed minus predicted fails at the session to check:
  the fit through \<open>(50, 51)\<close>, \<open>(100, 100)\<close>, \<open>(150, 152)\<close> is \<open>1.01 t\<close>, the function
  prints the residuals \<open>-0.5, 1, -0.5\<close>, and observed minus predicted is
  \<open>0.5, -1, 0.5\<close>.
\<close>

theorem resids_observed_minus_predicted_counterexample:
  "generate_mplayer_guesses_and_sync ex_retract_times polyfit_deg1 ex_metadata
       (Some [51, 100, 152]) [1, 10] 3 10
     = Inr (ex_commands @
         [Print_name (path_tail (md_filename ex_metadata)),
          Print_name (path_tail (md_filename_video ex_metadata)),
          Print_combined_fit [101 / 100, 101 / 10],
          Print_resids [- (1 / 2), 1, - (1 / 2)]]) \<and>
   polyfit_deg1 [50, 100, 150] [51, 100, 152] = Inr [101 / 100, 0] \<and>
   map2 (-) [51, 100, 152] (map (polyval [101 / 100, 0]) [50, 100, 150]) = [1 / 2, - 1, 1 / 2] \<and>
   [- (1 / 2), 1, - (1 / 2)] \<noteq> [1 / 2, - 1, 1 / 2 :: real]"
proof -
  have "polyfit_deg1 [50, 100, 150] [51, 100, 152] = Inr [101 / 100, 0]"
    by (simp add: polyfit_deg1_def)
  moreover have "map2 (-) [51, 100, 152] (map (polyval [101 / 100, 0]) [50, 100, 150])
      = [1 / 2, - 1, 1 / 2]"
    by (simp add: polyval_def)
  moreover have "[- (1 / 2), 1, - (1 / 2)] \<noteq> [1 / 2, - 1, 1 / 2 :: real]" by simp
  ultimately show ?thesis using ex_sync by blast
qed

theorem wrong_length_warns_without_fit_witness:
  "generate_mplayer_guesses_and_sync ex_retract_times polyfit_deg1 ex_metadata
       (Some [51]) [1, 10] 3 10
     = Inr (ex_commands @ [Warning_len 3 1]) \<and>
   generate_mplayer_guesses_and_sync ex_retract_times polyfit_deg1 ex_metadata
       None [1, 10] 3 10
     = Inr ex_commands"
proof -
  have len: "int (length [51 :: real]) \<noteq> 3" by simp
  from wrong_length_warns_without_fit
    [where polyfit = polyfit_deg1 and results = "[51]" and N = 3,
      OF ex_test_times ex_print len]
  show ?thesis by simp
qed

text \<open>
  The claim that the function warns and returns whenever the length differs fails where the
  choice of the times raises first. With the retraction times 1, 2 and 3 every guessed time
  is within 30 seconds of the start of the video and is masked; the series without NaN is
  empty and \<open>ser.index[0]\<close> raises IndexError, before the length of \<open>user_results\<close> is
  looked at and without a warning.
\<close>

theorem wrong_length_selection_raises_counterexample:
  "generate_mplayer_guesses_and_sync (\<lambda>f. map Some [1, 2, 3]) polyfit_deg1 ex_metadata
       (Some [51]) [1, 10] 3 10
     = Inl IndexError \<and>
   int (length [51 :: real]) \<noteq> 3"
  by (simp add: generate_mplayer_guesses_and_sync_def generate_test_times_for_user_def
        time_retract_vbase_def ex_metadata_def upt_rec polyval_nan_def polyval_def
        mask_by_buffer_from_end_def mask_above_def mask_below_def
        index_of_biggest_diffs_across_arr_def dropna_def Let_def)


subsection \<open>The first largest entry of a series\<close>

lemma first_max_eq_None: "first_max ys = None \<longleftrightarrow> ys = []"
  by (induction ys rule: first_max.induct) (auto split: option.splits)

lemma first_max_split:
  "first_max ys = Some (l, x) \<Longrightarrow>
     \<exists>pre post. ys = pre @ (l, x) # post \<and> (\<forall>p \<in> set pre. snd p < x) \<and>
       (\<forall>p \<in> set post. snd p \<le> x)"
proof (induction ys arbitrary: l x rule: first_max.induct)
  case 1
  then show ?case by simp
next
  case (2 l0 x0 xs)
  show ?case
  proof (cases "first_max xs")
    case None
    then have "xs = []" by (simp add: first_max_eq_None)
    moreover from "2.prems" None have "l = l0" "x = x0" by simp_all
    ultimately have "(l0, x0) # xs = [] @ (l, x) # [] \<and> (\<forall>p \<in> set []. snd p < x) \<and>
        (\<forall>p \<in> set []. snd p \<le> x)"
      by simp
    then show ?thesis by blast
  next
    case (Some p)
    obtain l' x' where p: "p = (l', x')" by (cases p)
    from "2.IH" [of l' x'] Some p obtain pre post where
      sp: "xs = pre @ (l', x') # post" "\<forall>p \<in> set pre. snd p < x'" "\<forall>p \<in> set post. snd p \<le> x'"
      by blast
    show ?thesis
    proof (cases "x0 < x'")
      case True
      with "2.prems" Some p have lx: "l = l'" "x = x'" by simp_all
      have "(l0, x0) # xs = ((l0, x0) # pre) @ (l, x) # post" using sp lx by simp
      moreover have "\<forall>p \<in> set ((l0, x0) # pre). snd p < x" using sp True lx by simp
      moreover have "\<forall>p \<in> set post. snd p \<le> x" using sp lx by simp
      ultimately show ?thesis by blast
    next
      case False
      with "2.prems" Some p have lx: "l = l0" "x = x0" by simp_all
      have "\<forall>p \<in> set xs. snd p \<le> x" using sp False lx by fastforce
      then have "(l0, x0) # xs = [] @ (l, x) # xs \<and> (\<forall>p \<in> set []. snd p < x) \<and>
          (\<forall>p \<in> set xs. snd p \<le> x)"
        using lx by simp
      then show ?thesis by blast
    qed
  qed
qed

lemma dropna_Nil: "dropna [] = []"
  by (simp add: dropna_def)

lemma dropna_Cons:
  "dropna ((l, v) # ser) = (case v of None \<Rightarrow> dropna ser | Some x \<Rightarrow> (l, x) # dropna ser)"
  by (simp add: dropna_def split: option.splits)

lemma in_dropna: "(l, x) \<in> set (dropna ser) \<longleftrightarrow> (l, Some x) \<in> set ser"
  by (induction ser) (auto simp: dropna_Nil dropna_Cons split: option.splits)

lemma dropna_sorted:
  "sorted_wrt (\<lambda>p q. fst p < fst q) ser \<Longrightarrow> sorted_wrt (\<lambda>p q. fst p < fst q) (dropna ser)"
proof (induction ser)
  case Nil
  then show ?case by (simp add: dropna_Nil)
next
  case (Cons a ser)
  obtain l v where a: "a = (l, v)" by (cases a)
  from Cons have tail: "sorted_wrt (\<lambda>p q. fst p < fst q) (dropna ser)" by simp
  have "l < fst q" if "q \<in> set (dropna ser)" for q
  proof -
    obtain l' x' where q: "q = (l', x')" by (cases q)
    with that have "(l', Some x') \<in> set ser" by (simp add: in_dropna)
    with Cons.prems a q show ?thesis by auto
  qed
  with tail a show ?case by (cases v) (simp_all add: dropna_Cons)
qed

subsection \<open>The best video\<close>

lemma overlaps_sorted: "sorted_wrt (\<lambda>p q. fst p < fst q) (overlaps vdf b)"
proof -
  have "sorted_wrt (<) (map fst (List.enumerate 0 vdf))" by simp
  then have "sorted_wrt (\<lambda>p q. fst p < fst q) (List.enumerate 0 vdf)"
    by (simp only: sorted_wrt_map)
  then have "sorted_wrt (\<lambda>p q. fst p < fst q)
      (filter (\<lambda>(i, v). rig_video v = rig b) (List.enumerate 0 vdf))"
    by (rule sorted_wrt_filter)
  then show ?thesis
    unfolding overlaps_def by (simp add: sorted_wrt_map case_prod_beta)
qed

lemma in_overlaps:
  "(i, ov) \<in> set (overlaps vdf b) \<longleftrightarrow>
     i < length vdf \<and> rig_video (vdf ! i) = rig b \<and> ov = overlap b (vdf ! i)"
  by (auto simp: overlaps_def in_set_enumerate_eq)

lemma map_of_overlaps:
  assumes "i < length vdf" and "rig_video (vdf ! i) = rig b"
  shows "map_of (overlaps vdf b) i = Some (overlap b (vdf ! i))"
proof -
  from overlaps_sorted [of vdf b] have "sorted_wrt (<) (map fst (overlaps vdf b))"
    by (simp add: sorted_wrt_map)
  then have "distinct (map fst (overlaps vdf b))"
    by (simp add: strict_sorted_iff)
  moreover from assms have "(i, overlap b (vdf ! i)) \<in> set (overlaps vdf b)"
    by (simp add: in_overlaps)
  ultimately show ?thesis by simp
qed

text \<open>
  When some video of the rig of the behavior row has a start, the row is annotated
  with the first video \<open>i\<close> of that rig whose overlap
  \<open>min(end_b, end_v) - max(start_b, start_v)\<close> is largest (videos without a start have no
  overlap and are skipped): with its row number and that overlap in seconds when the overlap
  is positive, and with -1 and 0 otherwise.
\<close>

lemma best_video_maximal_overlap:
  assumes "\<exists>v \<in> set vdf. rig_video v = rig b \<and> dt_start_video v \<noteq> None"
  shows "\<exists>i start_v ov.
           i < length vdf \<and> rig_video (vdf ! i) = rig b \<and>
           dt_start_video (vdf ! i) = Some start_v \<and>
           ov = min (dt_end_video (vdf ! i)) (dt_end b) - max start_v (dt_start b) \<and>
           (\<forall>j < length vdf. rig_video (vdf ! j) = rig b \<longrightarrow>
              (\<forall>ov'. overlap b (vdf ! j) = Some ov' \<longrightarrow> ov' \<le> ov \<and> (j < i \<longrightarrow> ov' < ov))) \<and>
           best_video vdf b =
             Inr (if 0 < ov
                  then \<lparr>brow = b, best_video_index = int i,
                        best_video_overlap = real_of_int ov / 1000000000\<rparr>
                  else \<lparr>brow = b, best_video_index = - 1, best_video_overlap = 0\<rparr>)"
proof -
  let ?xs = "overlaps vdf b"
  from assms obtain v sv where v: "v \<in> set vdf" "rig_video v = rig b"
    "dt_start_video v = Some sv" by auto
  then obtain k where k: "k < length vdf" "vdf ! k = v" by (auto simp: in_set_conv_nth)
  from v obtain ok where ok: "overlap b v = Some ok" by (simp add: overlap_def)
  with k v have kin: "(k, Some ok) \<in> set ?xs" by (simp add: in_overlaps)
  then have "(k, ok) \<in> set (dropna ?xs)" by (simp add: in_dropna)
  then have "first_max (dropna ?xs) \<noteq> None" by (auto simp: first_max_eq_None)
  then obtain i ov where fm: "first_max (dropna ?xs) = Some (i, ov)" by auto
  from first_max_split [OF fm] obtain pre post where
    sp: "dropna ?xs = pre @ (i, ov) # post" "\<forall>p \<in> set pre. snd p < ov"
      "\<forall>p \<in> set post. snd p \<le> ov" by blast
  have "(i, ov) \<in> set (dropna ?xs)" using sp by simp
  then have iin: "(i, Some ov) \<in> set ?xs" by (simp add: in_dropna)
  then have i: "i < length vdf" "rig_video (vdf ! i) = rig b" "overlap b (vdf ! i) = Some ov"
    by (simp_all add: in_overlaps)
  from i(3) obtain start_v where st: "dt_start_video (vdf ! i) = Some start_v"
    and ov: "ov = min (dt_end_video (vdf ! i)) (dt_end b) - max start_v (dt_start b)"
    by (auto simp: overlap_def split: option.splits)
  have srt: "sorted_wrt (\<lambda>p q. fst p < fst q) (pre @ (i, ov) # post)"
    using dropna_sorted [OF overlaps_sorted [of vdf b]] sp by simp
  have best: "ov' \<le> ov \<and> (j < i \<longrightarrow> ov' < ov)"
    if j: "j < length vdf" "rig_video (vdf ! j) = rig b" "overlap b (vdf ! j) = Some ov'"
    for j ov'
  proof -
    from j have "(j, Some ov') \<in> set ?xs" by (simp add: in_overlaps)
    then have "(j, ov') \<in> set (dropna ?xs)" by (simp add: in_dropna)
    with sp have cases: "(j, ov') \<in> set pre \<or> (j, ov') = (i, ov) \<or> (j, ov') \<in> set post"
      by auto
    have le: "ov' \<le> ov" using cases sp by fastforce
    have "ov' < ov" if "j < i"
    proof -
      from srt have "\<forall>q \<in> set post. i < fst q"
        by (auto simp: sorted_wrt_append)
      with that cases have "(j, ov') \<in> set pre" by fastforce
      with sp show ?thesis by fastforce
    qed
    with le show ?thesis by simp
  qed
  have ne: "?xs \<noteq> []" using kin by auto
  have idx: "idxmax ?xs = Inr (Some i)" using fm ne by (simp add: idxmax_def)
  have look: "map_of ?xs i = Some (Some ov)" using map_of_overlaps [OF i(1) i(2)] i(3) by simp
  have nonempty: "vdf \<noteq> []" using v by auto
  have some_start: "\<not> list_all (\<lambda>v. dt_start_video v = None) vdf"
    using v by (auto simp: list_all_iff)
  have "best_video vdf b =
      Inr (if 0 < ov
           then \<lparr>brow = b, best_video_index = int i,
                 best_video_overlap = real_of_int ov / 1000000000\<rparr>
           else \<lparr>brow = b, best_video_index = - 1, best_video_overlap = 0\<rparr>)"
    using nonempty some_start idx look by (simp add: best_video_def Let_def)
  with i st ov best show ?thesis by blast
qed

lemma ex_best_video:
  "best_video [ex_video_L2, ex_video_L1, ex_video_bad] ex_behavior
     = Inr \<lparr>brow = ex_behavior, best_video_index = 1, best_video_overlap = 3300\<rparr>"
  by (simp add: best_video_def overlaps_def overlap_def idxmax_def dropna_def
        ex_video_L2_def ex_video_L1_def ex_video_bad_def ex_behavior_def)

lemma ex_best_video_maximal_overlap:
  "\<exists>i start_v ov.
      i < length [ex_video_L2, ex_video_L1, ex_video_bad] \<and>
      dt_start_video ([ex_video_L2, ex_video_L1, ex_video_bad] ! i) = Some start_v \<and>
      ov = min (dt_end_video ([ex_video_L2, ex_video_L1, ex_video_bad] ! i)) (dt_end ex_behavior)
             - max start_v (dt_start ex_behavior) \<and>
      best_video [ex_video_L2, ex_video_L1, ex_video_bad] ex_behavior =
        Inr (if 0 < ov
             then \<lparr>brow = ex_behavior, best_video_index = int i,
                   best_video_overlap = real_of_int ov / 1000000000\<rparr>
             else \<lparr>brow = ex_behavior, best_video_index = - 1, best_video_overlap = 0\<rparr>)"
proof -
  have "\<exists>v \<in> set [ex_video_L2, ex_video_L1, ex_video_bad].
      rig_video v = rig ex_behavior \<and> dt_start_video v \<noteq> None"
    by (simp add: ex_video_L1_def ex_behavior_def)
  from best_video_maximal_overlap [OF this] show ?thesis by blast
qed

text \<open>
  The loop over the behavior rows: when the rig of every row has a video with a start, the
  loop returns, with one annotated row for each row, each annotated as above.
\<close>

lemma best_videos_maximal_overlap:
  assumes "\<forall>b \<in> set bs. \<exists>v \<in> set vdf. rig_video v = rig b \<and> dt_start_video v \<noteq> None"
  shows "\<exists>ms. best_videos vdf bs = Inr ms \<and> length ms = length bs \<and>
           (\<forall>k < length bs. best_video vdf (bs ! k) = Inr (ms ! k))"
  using assms
proof (induction bs)
  case Nil
  then show ?case by simp
next
  case (Cons b bs)
  from Cons.prems have "\<exists>v \<in> set vdf. rig_video v = rig b \<and> dt_start_video v \<noteq> None"
    by simp
  from best_video_maximal_overlap [OF this] obtain m where m: "best_video vdf b = Inr m"
    by blast
  from Cons obtain ms where ms: "best_videos vdf bs = Inr ms" "length ms = length bs"
    "\<forall>k < length bs. best_video vdf (bs ! k) = Inr (ms ! k)"
    by auto
  have "best_video vdf ((b # bs) ! k) = Inr ((m # ms) ! k)" if "k < length (b # bs)" for k
    using that m ms by (cases k) simp_all
  with m ms have "best_videos vdf (b # bs) = Inr (m # ms) \<and>
      length (m # ms) = length (b # bs) \<and>
      (\<forall>k < length (b # bs). best_video vdf ((b # bs) ! k) = Inr ((m # ms) ! k))"
    by simp
  then show ?case by blast
qed

text \<open>
  When the frame of videos has rows with a start but no row of the rig of the behavior row,
  the series of overlaps is empty and \<open>argmax\<close> raises ValueError.
\<close>

lemma best_video_no_video_of_rig:
  assumes "\<exists>v \<in> set vdf. dt_start_video v \<noteq> None" and "\<forall>v \<in> set vdf. rig_video v \<noteq> rig b"
  shows "best_video vdf b = Inl ValueError"
proof -
  from assms(2) have "overlaps vdf b = []"
    by (auto simp: overlaps_def filter_empty_conv in_set_enumerate_eq)
  moreover from assms(1) have "vdf \<noteq> []" "\<not> list_all (\<lambda>v. dt_start_video v = None) vdf"
    by (auto simp: list_all_iff)
  ultimately show ?thesis by (simp add: best_video_def idxmax_def)
qed

text \<open>
  Claim C3 fails on the code. A behavior row of rig L1 and a frame with one video, of rig L2:
  the loop raises ValueError, and annotates nothing.
\<close>

theorem best_videos_no_video_of_rig_raises:
  "best_videos [ex_video_L2] [ex_behavior] = Inl ValueError"
  by (simp add: best_video_def overlaps_def idxmax_def ex_video_L2_def ex_behavior_def)

text \<open>
  Claim C2 fails on the code. Two behavior rows, of rig L1 and of rig L3, and a frame with one
  video, of rig L1, which overlaps the first row by 3300 seconds: the loop raises ValueError
  at the second row, whose rig has no video, and no row is annotated, neither with the video
  of the largest overlap nor with -1 and 0.
\<close>

theorem best_videos_unmatched_rig_annotates_nothing:
  "best_video [ex_video_L1] ex_behavior
     = Inr \<lparr>brow = ex_behavior, best_video_index = 0, best_video_overlap = 3300\<rparr> \<and>
   best_videos [ex_video_L1] [ex_behavior, ex_behavior\<lparr>rig := ''L3''\<rparr>] = Inl ValueError"
  by (simp add: best_video_def overlaps_def overlap_def idxmax_def dropna_def
        ex_video_L1_def ex_behavior_def)

subsection \<open>The cache of parse_video_filenames\<close>

lemma parse_video_filenames_no_cache:
  "parse_video_filenames e (f # fs) verbose None = ([], Inl AttributeError)"
  by (simp add: parse_video_filenames_def)

text \<open>
  Claim C8 fails on the code. Without a cache and with one video file to parse, the first
  statement of the loop raises AttributeError; no file is probed.
\<close>

theorem parse_video_filenames_without_cache_raises:
  "parse_video_filenames ex_env [''/v/L1.20190101130000.mp4''] False None
     = ([], Inl AttributeError)"
  by (simp add: parse_video_filenames_def)

text \<open>
  Claim C9. When the cache lists a file name that is not among the video file names, the
  function raises ValueError, and has printed and probed nothing before.
\<close>

theorem parse_video_filenames_cache_inconsistent:
  assumes "f \<in> set (map filename_video c)" and "f \<notin> set video_filenames"
  shows "parse_video_filenames e video_filenames verbose (Some c) = ([], Inl ValueError)"
  using assms by (auto simp: parse_video_filenames_def list_all_iff)

theorem parse_video_filenames_cache_inconsistent_witness:
  "parse_video_filenames ex_env [''/v/L2.20190101130000.mp4''] True (Some [ex_video_L1])
     = ([], Inl ValueError)"
proof -
  have "''/v/L1.20190101130000.mp4'' \<in> set (map filename_video [ex_video_L1])"
    by (simp add: ex_video_L1_def)
  moreover have "''/v/L1.20190101130000.mp4'' \<notin> set [''/v/L2.20190101130000.mp4'']"
    by simp
  ultimately show ?thesis by (rule parse_video_filenames_cache_inconsistent)
qed

text \<open>
  With a cache that lists no unknown file, the files that are not in the cache are probed.
\<close>

lemma ex_parse_video_filenames:
  "parse_video_filenames ex_env [''/v/L1.20190101130000.mp4''] False (Some [])
     = ([Ffprobe ''/v/L1.20190101130000.mp4''], Inr (Concat_axis1 [ex_video_L1] []))"
  by (simp add: parse_video_filenames_def ex_env_def video_pattern_def duration_pattern_def
        is_space_def is_digit_def and_then_def ex_video_L1_def)

subsection \<open>The mouse names of parse_behavior_filenames\<close>

lemma behavior_records_tail:
  "behavior_records e (a # fs) = Inr recs \<Longrightarrow>
     \<exists>recs'. behavior_records e fs = Inr recs' \<and> set recs' \<subseteq> set recs"
  by (auto simp: Let_def split: option.splits list.splits sum.splits)

lemma behavior_records_mem:
  assumes "behavior_records e fs = Inr recs" and "f \<in> set fs"
    and "re_match behavior_pattern (abspath e f) = Some [d, r, ds, m]"
    and "strptime e ds = Some date"
  shows "\<lparr>dir = d, rig = r, mouse = m, dt_start = date, dt_end = get_file_time e f,
           duration = get_file_time e f - date, filename = f\<rparr> \<in> set recs"
  using assms(1,2)
proof (induction fs arbitrary: recs)
  case Nil
  then show ?case by simp
next
  case (Cons a fs)
  show ?case
  proof (cases "a = f")
    case True
    with Cons.prems(1) assms(3,4) show ?thesis
      by (auto simp: Let_def split: sum.splits)
  next
    case False
    with Cons.prems have f: "f \<in> set fs" by simp
    from behavior_records_tail [OF Cons.prems(1)] obtain recs' where
      "behavior_records e fs = Inr recs'" "set recs' \<subseteq> set recs"
      by blast
    with Cons.IH [OF _ f] show ?thesis by blast
  qed
qed

text \<open>
  Claim C7. When \<open>parse_behavior_filenames\<close> with \<open>clean=True\<close> returns, the record of
  a file that matches the pattern, with its mouse name in upper case and then replaced along
  the alias table, is in the result if and only if that name is in the list of mice. The
  name \<open>kf13a\<close> becomes \<open>KF13A\<close>, then \<open>KF13\<close>, which is in the list.
\<close>

theorem parse_behavior_filenames_clean:
  assumes "parse_behavior_filenames e files True = Inr (w, df)" and "f \<in> set files"
    and "re_match behavior_pattern (abspath e f) = Some [d, r, ds, m]"
    and "strptime e ds = Some date"
  shows "(\<lparr>dir = d, rig = r, mouse = replace_aliases (upper m), dt_start = date,
            dt_end = get_file_time e f, duration = get_file_time e f - date,
            filename = f\<rparr> \<in> set df
          \<longleftrightarrow> replace_aliases (upper m) \<in> set mice) \<and>
         (\<forall>x \<in> set df. mouse x \<in> set mice) \<and>
         upper ''kf13a'' = ''KF13A'' \<and> replace_aliases ''KF13A'' = ''KF13'' \<and>
         ''KF13'' \<in> set mice"
proof -
  let ?raw = "\<lparr>dir = d, rig = r, mouse = m, dt_start = date, dt_end = get_file_time e f,
           duration = get_file_time e f - date, filename = f\<rparr>"
  from assms(1) obtain recs where recs: "behavior_records e files = Inr recs"
    by (auto simp: parse_behavior_filenames_def split: sum.splits)
  from behavior_records_mem [OF recs assms(2,3,4)] have raw: "?raw \<in> set recs" .
  then have "recs \<noteq> []" by auto
  with assms(1) recs have df: "df = filter (\<lambda>r. mouse r \<in> set mice) (map clean_mouse recs)"
    by (simp add: parse_behavior_filenames_def)
  have cl: "clean_mouse ?raw = ?raw\<lparr>mouse := replace_aliases (upper m)\<rparr>"
    by (simp add: clean_mouse_def)
  from raw have "clean_mouse ?raw \<in> set (map clean_mouse recs)" by simp
  with cl df have one: "?raw\<lparr>mouse := replace_aliases (upper m)\<rparr> \<in> set df
      \<longleftrightarrow> replace_aliases (upper m) \<in> set mice"
    by auto
  have two: "\<forall>x \<in> set df. mouse x \<in> set mice" using df by simp
  have three: "upper ''kf13a'' = ''KF13A''" by (simp add: upper_def)
  have four: "replace_aliases ''KF13A'' = ''KF13''" by (simp add: replace_aliases_def aliases_def)
  have five: "''KF13'' \<in> set mice" by (simp add: mice_def)
  from one two three four five show ?thesis by simp
qed

lemma ex_re_match:
  "re_match behavior_pattern (abspath ex_env ''/data/L1/ardulines.20190101120500.kf13a'')
     = Some [''/data'', ''L1'', ''20190101120500'', ''kf13a'']"
  by (simp add: ex_env_def behavior_pattern_def is_space_def is_digit_def)

lemma ex_parse_behavior_filenames:
  "parse_behavior_filenames ex_env [''/data/L1/ardulines.20190101120500.kf13a''] True
     = Inr ([], [\<lparr>dir = ''/data'', rig = ''L1'', mouse = ''KF13'', dt_start = 43500000000000,
                  dt_end = 47100000000000, duration = 3600000000000,
                  filename = ''/data/L1/ardulines.20190101120500.kf13a''\<rparr>])"
  by (simp add: parse_behavior_filenames_def ex_re_match)
     (simp add: ex_env_def clean_mouse_def upper_def replace_aliases_def aliases_def mice_def)

theorem parse_behavior_filenames_clean_witness:
  "parse_behavior_filenames ex_env [''/data/L1/ardulines.20190101120500.kf13a''] True
     = Inr ([], [\<lparr>dir = ''/data'', rig = ''L1'', mouse = ''KF13'', dt_start = 43500000000000,
                  dt_end = 47100000000000, duration = 3600000000000,
                  filename = ''/data/L1/ardulines.20190101120500.kf13a''\<rparr>]) \<and>
   replace_aliases (upper ''kf13a'') = ''KF13'' \<and>
   replace_aliases (upper ''kf13a'') \<in> set mice"
proof -
  have "''/data/L1/ardulines.20190101120500.kf13a''
      \<in> set [''/data/L1/ardulines.20190101120500.kf13a'']" by simp
  moreover have "strptime ex_env ''20190101120500'' = Some 43500000000000"
    by (simp add: ex_env_def)
  ultimately show ?thesis
    using parse_behavior_filenames_clean [OF ex_parse_behavior_filenames _ ex_re_match]
      ex_parse_behavior_filenames
    by (simp add: upper_def replace_aliases_def aliases_def mice_def)
qed

end
